theory Spec2Isabelle
  imports Complex_Main
begin

section \<open>Bond and stock calculators: the model\<close>

text \<open>
  The notebook \<^verbatim>\<open>2bond&stock.ipynb\<close> defines six Python functions. They are embedded
  here as HOL functions of the same names. Python's \<^verbatim>\<open>float\<close> is idealised as
  \<^typ>\<open>real\<close> (no rounding, no overflow), Python's \<^verbatim>\<open>int\<close> is \<^typ>\<open>int\<close>,
  \<^verbatim>\<open>str\<close> is \<^typ>\<open>string\<close>, and an exception is a value \<open>Inl e\<close> of a sum type.
  Rounding is modelled where a property depends on it: in
  \<^verbatim>\<open>optimal_weight_allocation\<close> every arithmetic result passes through a rounding
  function, which is the rounding to double precision for the floats of the source and the
  identity for exact arithmetic. The range of the exponent (overflow, underflow) is not
  modelled anywhere.
\<close>

subsection \<open>Exceptions and arithmetic that can raise\<close>

text \<open>
  \<open>ValueError\<close>, \<open>ZeroDivisionError\<close> and \<open>RuntimeError\<close> are the exceptions of
  Python. \<open>NonFinite\<close> is not an exception: it marks a computation on
  \<^verbatim>\<open>numpy.float64\<close> in which a division by zero gives an infinity or a NaN instead of
  raising. The model has no such values and does not follow the computation further.
\<close>

datatype error = ValueError | ZeroDivisionError | RuntimeError | NonFinite

text \<open>\<^verbatim>\<open>a / b\<close> on numbers: raises \<^verbatim>\<open>ZeroDivisionError\<close> when \<^verbatim>\<open>b\<close> is zero.\<close>

definition py_truediv :: "real \<Rightarrow> real \<Rightarrow> error + real" where
  "py_truediv a b = (if b = 0 then Inl ZeroDivisionError else Inr (a / b))"

text \<open>
  \<^verbatim>\<open>x ** n\<close> with an integer exponent: zero to a negative power raises
  \<^verbatim>\<open>ZeroDivisionError\<close>; \<^verbatim>\<open>x ** 0\<close> is one for every \<^verbatim>\<open>x\<close>.
\<close>

definition py_pow :: "real \<Rightarrow> int \<Rightarrow> error + real" where
  "py_pow x n =
     (if 0 \<le> n then Inr (x ^ nat n)
      else if x = 0 then Inl ZeroDivisionError
      else Inr (1 / x ^ nat (- n)))"

text \<open>\<^verbatim>\<open>range(a, b)\<close> on integers.\<close>

definition py_range :: "int \<Rightarrow> int \<Rightarrow> int list" where
  "py_range a b = [a..b - 1]"

text \<open>
  The same arithmetic on \<^verbatim>\<open>numpy.float64\<close>: SciPy's \<^verbatim>\<open>newton\<close> converts the
  guess to \<^verbatim>\<open>numpy.float64\<close> and calls the residual on such numbers, for which a
  division by zero (also zero to a negative power) gives an infinity or a NaN with a
  warning, not \<^verbatim>\<open>ZeroDivisionError\<close>.
\<close>

fun on_numpy :: "error + real \<Rightarrow> error + real" where
  "on_numpy (Inl ZeroDivisionError) = Inl NonFinite"
| "on_numpy (Inl e) = Inl e"
| "on_numpy (Inr v) = Inr v"

subsection \<open>Rounding to double precision\<close>

text \<open>
  A float operation of Python returns the exact result rounded to the nearest number with
  a significand of 53 bits, a tie going to the even significand. \<open>float_exponent x\<close> is
  the \<open>e\<close> with \<open>2^e \<le> x < 2^(e+1)\<close> for positive \<open>x\<close>.
\<close>

definition round_half_even :: "real \<Rightarrow> int" where
  "round_half_even x =
     (let n = \<lfloor>x\<rfloor>; d = x - of_int n
      in if d < 1 / 2 then n
         else if 1 / 2 < d then n + 1
         else if even n then n else n + 1)"

function float_exponent :: "real \<Rightarrow> int" where
  "float_exponent x =
     (if x \<le> 0 then 0
      else if x < 1 then float_exponent (2 * x) - 1
      else if 2 \<le> x then float_exponent (x / 2) + 1
      else 0)"
  by pat_completeness auto
termination
proof (relation "measure (\<lambda>x. nat \<bar>\<lfloor>log 2 x\<rfloor>\<bar>)")
  show "wf (measure (\<lambda>x. nat \<bar>\<lfloor>log 2 x\<rfloor>\<bar>))" by simp
next
  fix x :: real
  assume "\<not> x \<le> 0" and "x < 1"
  then have x: "0 < x" "x < 1" by simp_all
  have "log 2 (2 * x) = 1 + log 2 x"
    using x by (simp add: log_mult)
  then have eq: "\<lfloor>log 2 (2 * x)\<rfloor> = \<lfloor>log 2 x\<rfloor> + 1"
    by simp
  have "log 2 x < 0" using x by simp
  then have "\<lfloor>log 2 x\<rfloor> < 0" by linarith
  with eq have "nat \<bar>\<lfloor>log 2 (2 * x)\<rfloor>\<bar> < nat \<bar>\<lfloor>log 2 x\<rfloor>\<bar>"
    by linarith
  then show "(2 * x, x) \<in> measure (\<lambda>x. nat \<bar>\<lfloor>log 2 x\<rfloor>\<bar>)"
    by (simp only: in_measure)
next
  fix x :: real
  assume "\<not> x \<le> 0" and "\<not> x < 1" and "2 \<le> x"
  then have x: "2 \<le> x" by simp
  have "log 2 (x / 2) = log 2 x - 1"
    using x by (simp add: log_divide)
  then have eq: "\<lfloor>log 2 (x / 2)\<rfloor> = \<lfloor>log 2 x\<rfloor> - 1"
    by simp
  have "1 \<le> log 2 x" using x by (simp add: le_log_iff)
  then have "1 \<le> \<lfloor>log 2 x\<rfloor>" by linarith
  with eq have "nat \<bar>\<lfloor>log 2 (x / 2)\<rfloor>\<bar> < nat \<bar>\<lfloor>log 2 x\<rfloor>\<bar>"
    by linarith
  then show "(x / 2, x) \<in> measure (\<lambda>x. nat \<bar>\<lfloor>log 2 x\<rfloor>\<bar>)"
    by (simp only: in_measure)
qed

declare float_exponent.simps [simp del]

text \<open>
  The rounding of a real number to double precision, with the exponent unbounded: the
  number is scaled by the unit in the last place of its binade, rounded to an integer and
  scaled back.
\<close>

definition binary64 :: "real \<Rightarrow> real" where
  "binary64 x =
     (if x = 0 then 0
      else
        let ulp = 2 powi (float_exponent \<bar>x\<bar> - 52)
        in sgn x * real_of_int (round_half_even (\<bar>x\<bar> / ulp)) * ulp)"

subsection \<open>\<^verbatim>\<open>bond_value\<close>\<close>

text \<open>
  The generator sum \<^verbatim>\<open>sum(c / (1 + r) ** t for t in ...)\<close>: the terms are computed and
  added from left to right, starting from \<^verbatim>\<open>0\<close>; the first term that raises ends the sum.
\<close>

fun discounted_sum :: "real \<Rightarrow> real \<Rightarrow> int list \<Rightarrow> real \<Rightarrow> error + real" where
  "discounted_sum c r [] acc = Inr acc"
| "discounted_sum c r (t # ts) acc =
     (case py_pow (1 + r) t of
        Inl e \<Rightarrow> Inl e
      | Inr p \<Rightarrow>
          (case py_truediv c p of
             Inl e \<Rightarrow> Inl e
           | Inr v \<Rightarrow> discounted_sum c r ts (acc + v)))"

definition bond_value :: "real \<Rightarrow> real \<Rightarrow> int \<Rightarrow> real \<Rightarrow> string \<Rightarrow> error + real" where
  "bond_value face_value coupon_rate years_to_maturity ytm frequency =
     (if frequency \<notin> set [''annual'', ''semi-annual''] then Inl ValueError
      else
        let periods_per_year = (if frequency = ''annual'' then 1 else 2 :: int);
            total_periods = years_to_maturity * periods_per_year;
            rate_per_period = ytm / real_of_int periods_per_year;
            coupon_payment = (coupon_rate * face_value) / real_of_int periods_per_year
        in
          (case discounted_sum coupon_payment rate_per_period
                  (py_range 1 (total_periods + 1)) 0 of
             Inl e \<Rightarrow> Inl e
           | Inr coupon_pv \<Rightarrow>
               (case py_pow (1 + rate_per_period) total_periods of
                  Inl e \<Rightarrow> Inl e
                | Inr p \<Rightarrow>
                    (case py_truediv face_value p of
                       Inl e \<Rightarrow> Inl e
                     | Inr face_value_pv \<Rightarrow> Inr (coupon_pv + face_value_pv)))))"

subsection \<open>The root-finder \<^verbatim>\<open>scipy.optimize.newton\<close>\<close>

text \<open>
  \<^verbatim>\<open>calculate_ytm\<close> and \<^verbatim>\<open>calculate_realized_yield\<close> call \<^verbatim>\<open>newton(func, x0)\<close> of
  SciPy, which is not part of the notebook. The root-finder is therefore a parameter of the
  two functions: it takes the residual function (which can raise) and the initial guess,
  and returns a root or raises.
\<close>

type_synonym root_finder = "(real \<Rightarrow> error + real) \<Rightarrow> real \<Rightarrow> error + real"

text \<open>
  \<^verbatim>\<open>newton(func, x0)\<close> as the two functions call it, with no derivative and the
  defaults \<^verbatim>\<open>tol=1.48e-08\<close>, \<^verbatim>\<open>maxiter=50\<close>, \<^verbatim>\<open>disp=True\<close>: the secant
  iteration. The second starting point is \<open>x0 * (1 + 1e-4)\<close> moved away from zero by \<open>1e-4\<close>; a step ends the
  iteration with the new iterate \<open>p\<close> when \<open>\<bar>p - p1\<bar> \<le> tol\<close> (the test is on the step,
  not on the residual); a flat secant between two distinct iterates, and 50 steps without
  an end, raise \<^verbatim>\<open>RuntimeError\<close>. An exception of the residual ends the call. This
  is written after SciPy's behaviour, not taken from the repository, over the reals.
\<close>

fun secant_steps ::
  "(real \<Rightarrow> error + real) \<Rightarrow> real \<Rightarrow> nat \<Rightarrow> real \<Rightarrow> real \<Rightarrow> real \<Rightarrow> real \<Rightarrow> error + real" where
  "secant_steps f tol 0 p0 q0 p1 q1 = Inl RuntimeError"
| "secant_steps f tol (Suc k) p0 q0 p1 q1 =
     (if q1 = q0 then (if p1 \<noteq> p0 then Inl RuntimeError else Inr ((p1 + p0) / 2))
      else
        let p = (if \<bar>q1\<bar> > \<bar>q0\<bar> then (- q0 / q1 * p1 + p0) / (1 - q0 / q1)
                 else (- q1 / q0 * p0 + p1) / (1 - q1 / q0))
        in if \<bar>p - p1\<bar> \<le> tol then Inr p
           else (case f p of
                   Inl e \<Rightarrow> Inl e
                 | Inr q \<Rightarrow> secant_steps f tol k p1 q1 p q))"

definition secant_solver :: root_finder where
  "secant_solver f x0 =
     (let eps = 1 / 10000;
          p1 = x0 * (1 + eps) + (if 0 \<le> x0 * (1 + eps) then eps else - eps)
      in case f x0 of
           Inl e \<Rightarrow> Inl e
         | Inr q0 \<Rightarrow>
             (case f p1 of
                Inl e \<Rightarrow> Inl e
              | Inr q1 \<Rightarrow>
                  if \<bar>q1\<bar> < \<bar>q0\<bar> then secant_steps f (148 / 10000000000) 50 p1 q1 x0 q0
                  else secant_steps f (148 / 10000000000) 50 x0 q0 p1 q1))"

text \<open>
  Two properties of a root-finder that the results below assume of \<^verbatim>\<open>newton\<close> where
  they need them: it evaluates the residual at the initial guess before anything else, so
  that an exception raised there ends the call; and it raises \<^verbatim>\<open>ValueError\<close> only
  when the residual does.
\<close>

definition evaluates_guess_first :: "root_finder \<Rightarrow> bool" where
  "evaluates_guess_first newton \<longleftrightarrow>
     (\<forall>f x e. e \<noteq> NonFinite \<longrightarrow> f x = Inl e \<longrightarrow> newton f x = Inl e)"

definition no_value_error_of_its_own :: "root_finder \<Rightarrow> bool" where
  "no_value_error_of_its_own newton \<longleftrightarrow>
     (\<forall>f x. newton f x = Inl ValueError \<longrightarrow> (\<exists>y. f y = Inl ValueError))"

subsection \<open>\<^verbatim>\<open>calculate_ytm\<close>\<close>

text \<open>
  The residual \<^verbatim>\<open>func = lambda ytm: bond_price - bond_value(...)\<close>. It is the
  root-finder that calls it, on \<^verbatim>\<open>numpy.float64\<close>: where \<^verbatim>\<open>bond_value\<close> called
  on a Python float raises \<^verbatim>\<open>ZeroDivisionError\<close>, the residual gives an infinity or a
  NaN (\<open>NonFinite\<close>).
\<close>

definition ytm_func :: "real \<Rightarrow> real \<Rightarrow> real \<Rightarrow> int \<Rightarrow> string \<Rightarrow> real \<Rightarrow> error + real" where
  "ytm_func bond_price face_value coupon_rate years_to_maturity frequency =
     (\<lambda>ytm. case on_numpy
                   (bond_value face_value coupon_rate years_to_maturity ytm frequency) of
              Inl e \<Rightarrow> Inl e
            | Inr v \<Rightarrow> Inr (bond_price - v))"

text \<open>The defaults of the source are \<^verbatim>\<open>frequency='annual'\<close> and \<^verbatim>\<open>guess=0.05\<close>.\<close>

definition calculate_ytm ::
  "root_finder \<Rightarrow> real \<Rightarrow> real \<Rightarrow> real \<Rightarrow> int \<Rightarrow> string \<Rightarrow> real \<Rightarrow> error + real" where
  "calculate_ytm newton bond_price face_value coupon_rate years_to_maturity frequency guess =
     newton (ytm_func bond_price face_value coupon_rate years_to_maturity frequency) guess"


subsection \<open>\<^verbatim>\<open>calculate_realized_yield\<close>\<close>

text \<open>
  The residual \<^verbatim>\<open>func = lambda r_ytm: initial_bond_price - sum(...) - future_bond_price_at_sale / ...\<close>,
  as a function of the variables it captures. Like the residual of \<^verbatim>\<open>calculate_ytm\<close>
  it is called on \<^verbatim>\<open>numpy.float64\<close>.
\<close>

definition realized_func :: "real \<Rightarrow> real \<Rightarrow> real \<Rightarrow> int \<Rightarrow> int \<Rightarrow> real \<Rightarrow> error + real" where
  "realized_func initial_bond_price counpon_payment future_bond_price_at_sale
       periods_per_year holding_periods =
     (\<lambda>r_ytm.
        on_numpy
          (case discounted_sum counpon_payment (r_ytm / real_of_int periods_per_year)
                  (py_range 1 (holding_periods + 1)) 0 of
             Inl e \<Rightarrow> Inl e
           | Inr s \<Rightarrow>
               (case py_pow (1 + r_ytm / real_of_int periods_per_year) holding_periods of
                  Inl e \<Rightarrow> Inl e
                | Inr p \<Rightarrow>
                    (case py_truediv future_bond_price_at_sale p of
                       Inl e \<Rightarrow> Inl e
                     | Inr v \<Rightarrow> Inr (initial_bond_price - s - v)))))"

definition calculate_realized_yield ::
  "root_finder \<Rightarrow> real \<Rightarrow> real \<Rightarrow> real \<Rightarrow> int \<Rightarrow> int \<Rightarrow> real \<Rightarrow> string \<Rightarrow> error + real" where
  "calculate_realized_yield newton face_value coupon_rate current_ytm years_to_maturity
       holding_period future_ytm frequency =
     (if frequency \<notin> set [''annual'', ''semi-annual''] then Inl ValueError
      else
        case bond_value face_value coupon_rate years_to_maturity current_ytm frequency of
          Inl e \<Rightarrow> Inl e
        | Inr initial_bond_price \<Rightarrow>
            let remaining_years_to_maturity = years_to_maturity - holding_period
            in (case bond_value face_value coupon_rate remaining_years_to_maturity
                      future_ytm frequency of
                  Inl e \<Rightarrow> Inl e
                | Inr future_bond_price_at_sale \<Rightarrow>
                    let periods_per_year = (if frequency = ''annual'' then 1 else 2 :: int);
                        holding_periods = holding_period * periods_per_year;
                        counpon_payment =
                          (coupon_rate * face_value) / real_of_int periods_per_year
                    in newton
                         (realized_func initial_bond_price counpon_payment
                            future_bond_price_at_sale periods_per_year holding_periods)
                         current_ytm))"

subsection \<open>\<^verbatim>\<open>pv_stock_constant_growth\<close>\<close>

definition pv_stock_constant_growth ::
  "real \<Rightarrow> real \<Rightarrow> real \<Rightarrow> bool \<Rightarrow> string \<Rightarrow> error + real" where
  "pv_stock_constant_growth dividend growth_rate discount_rate pay_now payment_frequency =
     (if payment_frequency \<notin> set [''annual'', ''semi-annual'', ''quarter'']
      then Inl ValueError
      else
        let periods_per_year =
              (if payment_frequency = ''annual'' then 1
               else if payment_frequency = ''semi-annual'' then 2
               else 4 :: int);
            growth_rate = growth_rate / real_of_int periods_per_year;
            discount_rate = discount_rate / real_of_int periods_per_year
        in if pay_now
           then py_truediv (dividend * (1 + growth_rate)) (discount_rate - growth_rate)
           else py_truediv dividend (discount_rate - growth_rate))"

subsection \<open>\<^verbatim>\<open>pv_stock_varying_growth_rate\<close>\<close>

text \<open>
  The loop \<^verbatim>\<open>for t, g in enumerate(growth_rates)\<close>: \<open>i\<close> is the index that
  \<^verbatim>\<open>enumerate\<close> gives, \<open>t = i + 1\<close> the period; the state is \<^verbatim>\<open>pv\<close> and
  \<^verbatim>\<open>last_dividend\<close>. Both branches add to \<^verbatim>\<open>pv\<close> (\<^verbatim>\<open>pv += ...\<close>).
\<close>

fun growth_loop :: "real \<Rightarrow> int \<Rightarrow> nat \<Rightarrow> real list \<Rightarrow> real \<Rightarrow> real \<Rightarrow> error + real" where
  "growth_loop discount_rate year_start i [] pv last_dividend = Inr pv"
| "growth_loop discount_rate year_start i (g # gs) pv last_dividend =
     (let t = int i + 1; d = last_dividend * (1 + g)
      in if t < year_start then
           (case py_pow (1 + discount_rate) t of
              Inl e \<Rightarrow> Inl e
            | Inr p \<Rightarrow>
                (case py_truediv d p of
                   Inl e \<Rightarrow> Inl e
                 | Inr v \<Rightarrow> growth_loop discount_rate year_start (Suc i) gs (pv + v) d))
         else
           (case py_truediv d (discount_rate - g) of
              Inl e \<Rightarrow> Inl e
            | Inr a \<Rightarrow>
                (case py_pow (1 + discount_rate) (t - 1) of
                   Inl e \<Rightarrow> Inl e
                 | Inr p \<Rightarrow>
                     (case py_truediv a p of
                        Inl e \<Rightarrow> Inl e
                      | Inr v \<Rightarrow>
                          growth_loop discount_rate year_start (Suc i) gs (pv + v) d))))"

definition pv_stock_varying_growth_rate ::
  "real \<Rightarrow> real \<Rightarrow> real list \<Rightarrow> int \<Rightarrow> error + real" where
  "pv_stock_varying_growth_rate last_dividend discount_rate growth_rates
       year_start_infinite_growth =
     growth_loop discount_rate year_start_infinite_growth 0 growth_rates 0 last_dividend"

text \<open>
  For comparison, the loop as the specification describes it: the contribution of a
  period at or after the start of the perpetuity replaces the perpetuity value kept so
  far, so that the last such period wins; the dividends before the start are summed.
\<close>

fun last_period_wins_loop ::
  "real \<Rightarrow> int \<Rightarrow> nat \<Rightarrow> real list \<Rightarrow> real \<Rightarrow> real \<Rightarrow> real \<Rightarrow> error + real" where
  "last_period_wins_loop discount_rate year_start i [] pv perpetuity last_dividend =
     Inr (pv + perpetuity)"
| "last_period_wins_loop discount_rate year_start i (g # gs) pv perpetuity last_dividend =
     (let t = int i + 1; d = last_dividend * (1 + g)
      in if t < year_start then
           (case py_pow (1 + discount_rate) t of
              Inl e \<Rightarrow> Inl e
            | Inr p \<Rightarrow>
                (case py_truediv d p of
                   Inl e \<Rightarrow> Inl e
                 | Inr v \<Rightarrow>
                     last_period_wins_loop discount_rate year_start (Suc i) gs
                       (pv + v) perpetuity d))
         else
           (case py_truediv d (discount_rate - g) of
              Inl e \<Rightarrow> Inl e
            | Inr a \<Rightarrow>
                (case py_pow (1 + discount_rate) (t - 1) of
                   Inl e \<Rightarrow> Inl e
                 | Inr p \<Rightarrow>
                     (case py_truediv a p of
                        Inl e \<Rightarrow> Inl e
                      | Inr v \<Rightarrow>
                          last_period_wins_loop discount_rate year_start (Suc i) gs
                            pv v d))))"

definition pv_last_period_wins :: "real \<Rightarrow> real \<Rightarrow> real list \<Rightarrow> int \<Rightarrow> error + real" where
  "pv_last_period_wins last_dividend discount_rate growth_rates year_start_infinite_growth =
     last_period_wins_loop discount_rate year_start_infinite_growth 0 growth_rates 0 0
       last_dividend"

subsection \<open>\<^verbatim>\<open>optimal_weight_allocation\<close>\<close>

text \<open>
  \<open>rnd\<close> is the rounding that every arithmetic operation applies to its exact result:
  \<open>binary64\<close> for the floats of the source, the identity for exact arithmetic. The
  operations are rounded one by one in the order Python evaluates them;
  \<^verbatim>\<open>sigma ** 2\<close> is taken as the rounded square.
\<close>

definition optimal_weight_allocation ::
  "(real \<Rightarrow> real) \<Rightarrow> real \<Rightarrow> real \<Rightarrow> real \<Rightarrow> real \<Rightarrow> real \<Rightarrow> real \<Rightarrow> error + real \<times> real" where
  "optimal_weight_allocation rnd r1 r2 sigma1 sigma2 rho rf =
     (let rp1 = rnd (r1 - rf);
          rp2 = rnd (r2 - rf);
          sigma12 = rnd (rnd (sigma1 * sigma2) * rho);
          numerator = rnd (rnd (rnd (sigma2 ^ 2) * rp1) - rnd (sigma12 * rp2));
          denominator =
            rnd (rnd (rnd (rnd (sigma1 ^ 2) * rp2) + rnd (rnd (sigma2 ^ 2) * rp1))
                 - rnd (sigma12 * rnd (rp1 + rp2)))
      in case py_truediv numerator denominator of
           Inl e \<Rightarrow> Inl e
         | Inr q \<Rightarrow> let w1 = rnd q in Inr (w1, rnd (1 - w1)))"

section \<open>Properties\<close>

subsection \<open>Helper lemmas on the discounted sum\<close>

lemma discounted_sum_upto:
  assumes "1 + r \<noteq> 0" and "1 \<le> a"
  shows "discounted_sum c r [a..b] acc = Inr (acc + (\<Sum>t\<in>{a..b}. c / (1 + r) ^ nat t))"
  using assms(2)
proof (induction "nat (b + 1 - a)" arbitrary: a acc)
  case 0
  then have "b < a" by simp
  then show ?case by simp
next
  case (Suc k)
  then have le: "a \<le> b" and k: "k = nat (b + 1 - (a + 1))" by linarith+
  have step: "discounted_sum c r [a + 1..b] (acc + c / (1 + r) ^ nat a) =
      Inr (acc + c / (1 + r) ^ nat a + (\<Sum>t\<in>{a + 1..b}. c / (1 + r) ^ nat t))"
    using Suc.hyps(1) [OF k] Suc.prems by simp
  have split: "{a..b} = insert a {a + 1..b}"
    using le by auto
  have "(\<Sum>t\<in>{a..b}. c / (1 + r) ^ nat t) =
      c / (1 + r) ^ nat a + (\<Sum>t\<in>{a + 1..b}. c / (1 + r) ^ nat t)"
    unfolding split by (subst sum.insert) auto
  moreover have "[a..b] = a # [a + 1..b]"
    using le by (simp add: upto_rec1)
  ultimately show ?case
    using step assms(1) Suc.prems by (simp add: py_pow_def py_truediv_def)
qed

text \<open>
  C9: with \<^verbatim>\<open>years_to_maturity = 0\<close> and a recognised frequency, \<^verbatim>\<open>bond_value\<close> returns
  exactly the face value, for every face value, coupon rate and yield (the coupon sum is
  empty and the face value is divided by the zeroth power, which is one).
\<close>

theorem bond_value_zero_years:
  assumes "frequency \<in> {''annual'', ''semi-annual''}"
  shows "bond_value face_value coupon_rate 0 ytm frequency = Inr face_value"
  using assms by (auto simp: bond_value_def py_range_def py_pow_def py_truediv_def)

theorem bond_value_zero_years_witness:
  "''semi-annual'' \<in> {''annual'', ''semi-annual''} \<and>
   bond_value 1000 (12 / 100) 0 (16 / 100) ''semi-annual'' = Inr 1000"
  using bond_value_zero_years [of "''semi-annual''" 1000 "12 / 100" "16 / 100"] by simp

subsection \<open>The closed form of \<^verbatim>\<open>bond_value\<close>\<close>

lemma bond_value_closed_form:
  assumes "frequency \<in> {''annual'', ''semi-annual''}" and "0 \<le> years_to_maturity"
    and "1 + ytm / real_of_int (if frequency = ''annual'' then 1 else 2) \<noteq> 0"
  shows "bond_value face_value coupon_rate years_to_maturity ytm frequency =
     (let periods_per_year = (if frequency = ''annual'' then 1 else 2 :: int);
          total_periods = years_to_maturity * periods_per_year;
          rate_per_period = ytm / real_of_int periods_per_year;
          coupon_payment = (coupon_rate * face_value) / real_of_int periods_per_year
      in Inr ((\<Sum>t\<in>{1..total_periods}. coupon_payment / (1 + rate_per_period) ^ nat t)
              + face_value / (1 + rate_per_period) ^ nat total_periods))"
proof -
  define ppy :: int where "ppy = (if frequency = ''annual'' then 1 else 2)"
  have tot: "0 \<le> years_to_maturity * ppy"
    using assms(2) by (simp add: ppy_def)
  have nz: "1 + ytm / real_of_int ppy \<noteq> 0"
    using assms(3) by (simp add: ppy_def)
  have sum: "discounted_sum c (ytm / real_of_int ppy) [1..years_to_maturity * ppy] 0 =
      Inr (\<Sum>t\<in>{1..years_to_maturity * ppy}. c / (1 + ytm / real_of_int ppy) ^ nat t)" for c
    using discounted_sum_upto [OF nz, of 1 c "years_to_maturity * ppy" 0] by simp
  show ?thesis
    using assms(1) tot nz sum
    by (simp add: bond_value_def Let_def py_range_def py_pow_def py_truediv_def ppy_def)
qed

text \<open>
  C1: for a recognised frequency, a positive number of years and a rate per period other
  than \<open>-1\<close>, \<^verbatim>\<open>bond_value\<close> returns the sum over the periods \<open>t = 1..totalPeriods\<close> of
  \<open>couponPayment / (1 + ratePerPeriod)^t\<close> plus \<open>faceValue / (1 + ratePerPeriod)^totalPeriods\<close>,
  with \<open>periodsPerYear\<close> 1 or 2, \<open>totalPeriods = years * periodsPerYear\<close>,
  \<open>ratePerPeriod = ytm / periodsPerYear\<close> and
  \<open>couponPayment = couponRate * faceValue / periodsPerYear\<close>. It holds for every face value
  and coupon rate, in particular for the positive face values and non-negative coupon rates
  of the input contract.
\<close>

theorem bond_value_formula:
  assumes "frequency \<in> {''annual'', ''semi-annual''}" and "0 < years_to_maturity"
    and "ytm / real_of_int (if frequency = ''annual'' then 1 else 2) \<noteq> - 1"
  shows "bond_value face_value coupon_rate years_to_maturity ytm frequency =
     (let periods_per_year = (if frequency = ''annual'' then 1 else 2 :: int);
          total_periods = years_to_maturity * periods_per_year;
          rate_per_period = ytm / real_of_int periods_per_year;
          coupon_payment = (coupon_rate * face_value) / real_of_int periods_per_year
      in Inr ((\<Sum>t\<in>{1..total_periods}. coupon_payment / (1 + rate_per_period) ^ nat t)
              + face_value / (1 + rate_per_period) ^ nat total_periods))"
proof -
  have "1 + ytm / real_of_int (if frequency = ''annual'' then 1 else 2) \<noteq> 0"
    using assms(3) by linarith
  then show ?thesis
    using assms(1,2) by (intro bond_value_closed_form) simp_all
qed

theorem bond_value_formula_witness:
  "''semi-annual'' \<in> {''annual'', ''semi-annual''} \<and> (0::int) < 1 \<and>
   (10 / 100 :: real) / real_of_int (if ''semi-annual'' = ''annual'' then 1 else 2) \<noteq> - 1 \<and>
   bond_value 1000 (5 / 100) 1 (10 / 100) ''semi-annual'' = Inr (420500 / 441)"
proof -
  have s: "{1..2::int} = {1, 2}" by auto
  show ?thesis
    using bond_value_formula [of "''semi-annual''" 1 "10 / 100" 1000 "5 / 100"]
    by (simp add: s power2_eq_square)
qed

subsection \<open>Monotonicity of \<^verbatim>\<open>bond_value\<close> in the yield\<close>

lemma discount_antitone:
  fixes c r1 r2 :: real
  assumes "0 < 1 + r1" and "r1 \<le> r2" and "0 \<le> c"
  shows "c / (1 + r2) ^ k \<le> c / (1 + r1) ^ k"
proof -
  have "(1 + r1) ^ k \<le> (1 + r2) ^ k"
    using assms(1,2) by (intro power_mono) simp_all
  moreover have "0 < (1 + r1) ^ k" "0 < (1 + r2) ^ k"
    using assms(1,2) by simp_all
  ultimately show ?thesis
    using assms(3) by (intro divide_left_mono) simp_all
qed

text \<open>
  C4 as stated (for every real yield) fails: below \<open>-periodsPerYear\<close> the discount factor
  \<open>1 + ratePerPeriod\<close> is negative. For the one-year annual bond with face value 1000 and
  coupon rate 5 percent, the yield \<open>-3\<close> gives \<open>-525\<close> and the larger yield \<open>0\<close> gives
  the larger value \<open>1050\<close>.
\<close>

theorem bond_value_antitone_counterexample:
  "bond_value 1000 (5 / 100) 1 (- 3) ''annual'' = Inr (- 525)
   \<and> bond_value 1000 (5 / 100) 1 0 ''annual'' = Inr 1050
   \<and> (- 3 :: real) \<le> 0 \<and> \<not> ((1050 :: real) \<le> - 525)"
  by (simp add: bond_value_def py_range_def py_pow_def py_truediv_def)

text \<open>
  C4, amended: for a recognised frequency, a positive face value, a non-negative coupon
  rate, a positive number of years and yields \<open>-periodsPerYear < y1 \<le> y2\<close> (so that
  \<open>1 + ratePerPeriod\<close> is positive), \<^verbatim>\<open>bond_value\<close> returns a value at both yields and
  the value at \<open>y1\<close> is greater than or equal to the value at \<open>y2\<close>.
\<close>

theorem bond_value_antitone_above_minus_one:
  assumes "frequency \<in> {''annual'', ''semi-annual''}"
    and "0 < face_value" and "0 \<le> coupon_rate" and "0 < years_to_maturity"
    and "- real_of_int (if frequency = ''annual'' then 1 else 2) < y1" and "y1 \<le> y2"
  shows "\<exists>v1 v2. bond_value face_value coupon_rate years_to_maturity y1 frequency = Inr v1
           \<and> bond_value face_value coupon_rate years_to_maturity y2 frequency = Inr v2
           \<and> v2 \<le> v1"
proof -
  define ppy :: int where "ppy = (if frequency = ''annual'' then 1 else 2)"
  define c where "c = coupon_rate * face_value / real_of_int ppy"
  define n where "n = years_to_maturity * ppy"
  define r1 r2 where "r1 = y1 / real_of_int ppy" and "r2 = y2 / real_of_int ppy"
  have ppy: "0 < real_of_int ppy" by (simp add: ppy_def)
  have pos1: "0 < 1 + r1"
    using assms(5) ppy unfolding r1_def ppy_def by (auto simp: field_simps)
  have le: "r1 \<le> r2"
    using assms(6) ppy unfolding r1_def r2_def by (simp add: divide_right_mono)
  have c0: "0 \<le> c"
    using assms(2,3) ppy unfolding c_def by simp
  have v1: "bond_value face_value coupon_rate years_to_maturity y1 frequency =
      Inr ((\<Sum>t\<in>{1..n}. c / (1 + r1) ^ nat t) + face_value / (1 + r1) ^ nat n)"
    using bond_value_closed_form [OF assms(1), of years_to_maturity y1 face_value coupon_rate]
      assms(4) pos1
    by (simp add: Let_def c_def n_def r1_def ppy_def)
  have v2: "bond_value face_value coupon_rate years_to_maturity y2 frequency =
      Inr ((\<Sum>t\<in>{1..n}. c / (1 + r2) ^ nat t) + face_value / (1 + r2) ^ nat n)"
    using bond_value_closed_form [OF assms(1), of years_to_maturity y2 face_value coupon_rate]
      assms(4) pos1 le
    by (simp add: Let_def c_def n_def r2_def ppy_def)
  have "(\<Sum>t\<in>{1..n}. c / (1 + r2) ^ nat t) \<le> (\<Sum>t\<in>{1..n}. c / (1 + r1) ^ nat t)"
    by (intro sum_mono discount_antitone pos1 le c0)
  moreover have "face_value / (1 + r2) ^ nat n \<le> face_value / (1 + r1) ^ nat n"
    using assms(2) by (intro discount_antitone pos1 le) simp
  ultimately show ?thesis
    using v1 v2 by simp
qed

theorem bond_value_antitone_above_minus_one_witness:
  "''annual'' \<in> {''annual'', ''semi-annual''} \<and> (0::real) < 1000 \<and> (0::real) \<le> 5 / 100
   \<and> (0::int) < 1 \<and> - real_of_int (if ''annual'' = ''annual'' then 1 else 2) < (- 1 / 2 :: real)
   \<and> (- 1 / 2 :: real) \<le> 0
   \<and> (\<exists>v1 v2. bond_value 1000 (5 / 100) 1 (- 1 / 2) ''annual'' = Inr v1
           \<and> bond_value 1000 (5 / 100) 1 0 ''annual'' = Inr v2 \<and> v2 \<le> v1)"
  using bond_value_antitone_above_minus_one
    [of "''annual''" 1000 "5 / 100" 1 "- 1 / 2" 0]
  by simp

subsection \<open>The constant-growth stock value\<close>

text \<open>
  C7: for a payment frequency among annual, semi-annual and quarter (\<open>periodsPerYear\<close> 1, 2
  and 4), with \<open>g = annualGrowthRate / periodsPerYear\<close> and
  \<open>d = annualDiscountRate / periodsPerYear\<close> different from \<open>g\<close>,
  \<^verbatim>\<open>pv_stock_constant_growth\<close> returns \<open>dividend * (1 + g) / (d - g)\<close> when
  \<^verbatim>\<open>pay_now\<close> is true and \<open>dividend / (d - g)\<close> when it is false.
\<close>

theorem pv_stock_constant_growth_formula:
  assumes "payment_frequency \<in> {''annual'', ''semi-annual'', ''quarter''}"
    and "discount_rate / real_of_int (if payment_frequency = ''annual'' then 1
            else if payment_frequency = ''semi-annual'' then 2 else 4)
         \<noteq> growth_rate / real_of_int (if payment_frequency = ''annual'' then 1
            else if payment_frequency = ''semi-annual'' then 2 else 4)"
  shows "pv_stock_constant_growth dividend growth_rate discount_rate pay_now payment_frequency =
     (let periods_per_year = (if payment_frequency = ''annual'' then 1
            else if payment_frequency = ''semi-annual'' then 2 else 4 :: int);
          g = growth_rate / real_of_int periods_per_year;
          d = discount_rate / real_of_int periods_per_year
      in Inr (if pay_now then dividend * (1 + g) / (d - g) else dividend / (d - g)))"
  using assms by (auto simp: pv_stock_constant_growth_def py_truediv_def Let_def)

theorem pv_stock_constant_growth_formula_witness:
  "''quarter'' \<in> {''annual'', ''semi-annual'', ''quarter''}
   \<and> (16 / 100 :: real) / real_of_int (if ''quarter'' = ''annual'' then 1
            else if ''quarter'' = ''semi-annual'' then 2 else 4)
       \<noteq> (4 / 1000) / real_of_int (if ''quarter'' = ''annual'' then 1
            else if ''quarter'' = ''semi-annual'' then 2 else 4)
   \<and> pv_stock_constant_growth (22 / 100) (4 / 1000) (16 / 100) False ''quarter'' = Inr (220 / 39)"
  using pv_stock_constant_growth_formula [of "''quarter''" "16 / 100" "4 / 1000" "22 / 100" False]
  by simp

subsection \<open>Trailing growth rates in \<^verbatim>\<open>pv_stock_varying_growth_rate\<close>\<close>

lemma growth_loop_append:
  assumes "growth_loop discount_rate year_start i gs pv d = Inr r"
    and "year_start \<le> int i + int (length gs) + 1"
    and "discount_rate \<noteq> g" and "1 + discount_rate \<noteq> 0"
  shows "growth_loop discount_rate year_start i (gs @ [g]) pv d =
     Inr (r + d * prod_list (map (\<lambda>x. 1 + x) (gs @ [g])) / (discount_rate - g)
                / (1 + discount_rate) ^ (i + length gs))"
  using assms(1,2)
proof (induction gs arbitrary: i pv d)
  case Nil
  then show ?case
    using assms(3,4) by (simp add: py_truediv_def py_pow_def)
next
  case (Cons x xs)
  have bound: "year_start \<le> int (Suc i) + int (length xs) + 1"
    using Cons.prems(2) by simp
  show ?case
  proof (cases "int i + 1 < year_start")
    case True
    with Cons.prems(1) obtain p v where
      p: "py_pow (1 + discount_rate) (int i + 1) = Inr p"
      and v: "py_truediv (d * (1 + x)) p = Inr v"
      and rest: "growth_loop discount_rate year_start (Suc i) xs (pv + v) (d * (1 + x)) = Inr r"
      by (auto simp: Let_def split: sum.splits)
    show ?thesis
      using True p v Cons.IH [OF rest bound]
      by (simp add: Let_def mult.assoc)
  next
    case False
    with Cons.prems(1) obtain a p v where
      a: "py_truediv (d * (1 + x)) (discount_rate - x) = Inr a"
      and p: "py_pow (1 + discount_rate) (int i + 1 - 1) = Inr p"
      and v: "py_truediv a p = Inr v"
      and rest: "growth_loop discount_rate year_start (Suc i) xs (pv + v) (d * (1 + x)) = Inr r"
      by (auto simp: Let_def split: sum.splits)
    show ?thesis
      using False a p v Cons.IH [OF rest bound]
      by (simp add: Let_def mult.assoc)
  qed
qed

text \<open>
  C3 as stated fails: a later perpetuity contribution does not overwrite the value
  accumulated before, it is added to it (\<^verbatim>\<open>pv += ...\<close>). With the growth rates of the
  notebook's example and one more entry at period 4, after the perpetuity start 3, the
  function returns \<open>2791 / 192\<close>, where "the last qualifying period wins" would give
  \<open>501 / 64\<close>.
\<close>

theorem pv_varying_last_period_wins_counterexample:
  "pv_stock_varying_growth_rate 1 (2 / 10) [2 / 10, 15 / 100, 5 / 100, 5 / 100] 3 =
     Inr (2791 / 192)
   \<and> pv_last_period_wins 1 (2 / 10) [2 / 10, 15 / 100, 5 / 100, 5 / 100] 3 = Inr (501 / 64)
   \<and> (2791 / 192 :: real) \<noteq> 501 / 64"
  by (simp add: pv_stock_varying_growth_rate_def pv_last_period_wins_def
      py_truediv_def py_pow_def Let_def power2_eq_square power3_eq_cube)

text \<open>
  C3, amended: when the growth rates have one more entry \<open>g\<close> at a period at or after the
  start of the perpetuity, the perpetuity formula is executed for it too, and its
  contribution (the grown dividend divided by \<open>discountRate - g\<close>, discounted over the
  periods before it) is added to the present value returned without that entry: every
  qualifying period contributes and none is overwritten.
\<close>

theorem pv_varying_trailing_entry_adds:
  assumes "pv_stock_varying_growth_rate last_dividend discount_rate growth_rates
             year_start_infinite_growth = Inr pv"
    and "year_start_infinite_growth \<le> int (length growth_rates) + 1"
    and "discount_rate \<noteq> g" and "1 + discount_rate \<noteq> 0"
  shows "pv_stock_varying_growth_rate last_dividend discount_rate (growth_rates @ [g])
             year_start_infinite_growth =
     Inr (pv + last_dividend * prod_list (map (\<lambda>x. 1 + x) (growth_rates @ [g]))
                / (discount_rate - g) / (1 + discount_rate) ^ length growth_rates)"
  using growth_loop_append [of discount_rate year_start_infinite_growth 0 growth_rates 0
      last_dividend pv g] assms
  by (simp add: pv_stock_varying_growth_rate_def)

theorem pv_varying_trailing_entry_adds_witness:
  "pv_stock_varying_growth_rate 1 (2 / 10) [2 / 10, 15 / 100, 5 / 100] 3 = Inr (26 / 3)
   \<and> (3::int) \<le> int (length [2 / 10, 15 / 100, 5 / 100 :: real]) + 1
   \<and> (2 / 10 :: real) \<noteq> 5 / 100 \<and> (1 + 2 / 10 :: real) \<noteq> 0
   \<and> pv_stock_varying_growth_rate 1 (2 / 10) ([2 / 10, 15 / 100, 5 / 100] @ [5 / 100]) 3 =
       Inr (2791 / 192)"
proof -
  have ex: "pv_stock_varying_growth_rate 1 (2 / 10) [2 / 10, 15 / 100, 5 / 100] 3 = Inr (26 / 3)"
    by (simp add: pv_stock_varying_growth_rate_def py_truediv_def py_pow_def
        Let_def power2_eq_square)
  show ?thesis
    using pv_varying_trailing_entry_adds [OF ex, of "5 / 100"] ex
    by (simp add: power3_eq_cube)
qed

subsection \<open>Which exceptions can be raised\<close>

lemma py_pow_error: "py_pow x n = Inl e \<Longrightarrow> e = ZeroDivisionError"
  by (auto simp: py_pow_def split: if_splits)

lemma py_truediv_error: "py_truediv a b = Inl e \<Longrightarrow> e = ZeroDivisionError"
  by (auto simp: py_truediv_def split: if_splits)

lemma discounted_sum_error:
  "discounted_sum c r ts acc = Inl e \<Longrightarrow> e = ZeroDivisionError"
proof (induction ts arbitrary: acc)
  case Nil
  then show ?case by simp
next
  case (Cons t ts)
  then show ?case
    by (auto split: sum.splits dest: py_pow_error py_truediv_error)
qed

lemma bond_value_error:
  assumes "bond_value face_value coupon_rate years_to_maturity ytm frequency = Inl e"
    and "frequency \<in> {''annual'', ''semi-annual''}"
  shows "e = ZeroDivisionError"
  using assms
  by (auto simp: bond_value_def Let_def split: sum.splits if_splits
      dest: py_pow_error py_truediv_error discounted_sum_error)

lemma on_numpy_error: "on_numpy r = Inl e \<Longrightarrow> e \<noteq> ZeroDivisionError \<and> (e = NonFinite \<or> r = Inl e)"
  by (cases r rule: on_numpy.cases) auto

lemma realized_func_error:
  "realized_func p0 c p1 ppy hp y = Inl e \<Longrightarrow> e = NonFinite"
  by (auto simp: realized_func_def split: sum.splits
      dest!: on_numpy_error dest: py_pow_error py_truediv_error discounted_sum_error)

lemma secant_steps_error:
  "secant_steps f tol k p0 q0 p1 q1 = Inl e \<Longrightarrow> e \<noteq> RuntimeError \<Longrightarrow> \<exists>y. f y = Inl e"
proof (induction k arbitrary: p0 q0 p1 q1)
  case 0
  then show ?case by simp
next
  case (Suc k)
  then show ?case
    by (auto simp: Let_def split: if_splits sum.splits)
qed

lemma secant_solver_error:
  "secant_solver f x = Inl e \<Longrightarrow> e \<noteq> RuntimeError \<Longrightarrow> \<exists>y. f y = Inl e"
  by (auto simp: secant_solver_def Let_def split: if_splits sum.splits
      dest: secant_steps_error)

lemma secant_solver_first_evaluation:
  "f x = Inl e \<Longrightarrow> secant_solver f x = Inl e"
  by (simp add: secant_solver_def Let_def)

subsection \<open>Validation of the frequency argument\<close>

text \<open>
  C5: when the frequency is outside the enumerated set, \<^verbatim>\<open>bond_value\<close> and
  \<^verbatim>\<open>calculate_realized_yield\<close> (outside annual and semi-annual) and
  \<^verbatim>\<open>pv_stock_constant_growth\<close> (outside annual, semi-annual and quarter) raise
  \<^verbatim>\<open>ValueError\<close>, whatever the other arguments and the root-finder are: the check comes
  before any computation, so no other exception and no value can come first, and no
  frequency is assumed in its place. When the frequency is inside the set, that error is
  not raised (for \<^verbatim>\<open>calculate_realized_yield\<close>: provided the root-finder raises
  \<^verbatim>\<open>ValueError\<close> only when the residual does, \<open>no_value_error_of_its_own\<close>).
\<close>

theorem frequency_validation:
  "(frequency \<notin> {''annual'', ''semi-annual''} \<longrightarrow>
      bond_value face_value coupon_rate years_to_maturity ytm frequency = Inl ValueError
      \<and> calculate_realized_yield newton face_value coupon_rate current_ytm years_to_maturity
            holding_period future_ytm frequency = Inl ValueError)
   \<and> (payment_frequency \<notin> {''annual'', ''semi-annual'', ''quarter''} \<longrightarrow>
      pv_stock_constant_growth dividend growth_rate discount_rate pay_now payment_frequency
        = Inl ValueError)
   \<and> (frequency \<in> {''annual'', ''semi-annual''} \<longrightarrow>
      bond_value face_value coupon_rate years_to_maturity ytm frequency \<noteq> Inl ValueError
      \<and> (no_value_error_of_its_own newton \<longrightarrow>
           calculate_realized_yield newton face_value coupon_rate current_ytm
             years_to_maturity holding_period future_ytm frequency \<noteq> Inl ValueError))
   \<and> (payment_frequency \<in> {''annual'', ''semi-annual'', ''quarter''} \<longrightarrow>
      pv_stock_constant_growth dividend growth_rate discount_rate pay_now payment_frequency
        \<noteq> Inl ValueError)"
proof (intro conjI impI)
  assume "frequency \<notin> {''annual'', ''semi-annual''}"
  then show "bond_value face_value coupon_rate years_to_maturity ytm frequency = Inl ValueError"
    by (simp add: bond_value_def)
next
  assume "frequency \<notin> {''annual'', ''semi-annual''}"
  then show "calculate_realized_yield newton face_value coupon_rate current_ytm
      years_to_maturity holding_period future_ytm frequency = Inl ValueError"
    by (simp add: calculate_realized_yield_def)
next
  assume "payment_frequency \<notin> {''annual'', ''semi-annual'', ''quarter''}"
  then show "pv_stock_constant_growth dividend growth_rate discount_rate pay_now
      payment_frequency = Inl ValueError"
    by (simp add: pv_stock_constant_growth_def)
next
  assume "frequency \<in> {''annual'', ''semi-annual''}"
  then show "bond_value face_value coupon_rate years_to_maturity ytm frequency \<noteq> Inl ValueError"
    using bond_value_error by fastforce
next
  assume freq: "frequency \<in> {''annual'', ''semi-annual''}"
    and solver: "no_value_error_of_its_own newton"
  show "calculate_realized_yield newton face_value coupon_rate current_ytm
      years_to_maturity holding_period future_ytm frequency \<noteq> Inl ValueError"
  proof
    assume raised: "calculate_realized_yield newton face_value coupon_rate current_ytm
      years_to_maturity holding_period future_ytm frequency = Inl ValueError"
    have bv: "bond_value fv cr n y frequency \<noteq> Inl ValueError" for fv cr n y
      using bond_value_error freq by fastforce
    from raised freq bv obtain p0 c p1 ppy hp where
      "newton (realized_func p0 c p1 ppy hp) current_ytm = Inl ValueError"
      by (auto simp: calculate_realized_yield_def Let_def split: sum.splits if_splits)
    with solver obtain y where "realized_func p0 c p1 ppy hp y = Inl ValueError"
      unfolding no_value_error_of_its_own_def by blast
    then show False
      using realized_func_error by fastforce
  qed
next
  assume "payment_frequency \<in> {''annual'', ''semi-annual'', ''quarter''}"
  then show "pv_stock_constant_growth dividend growth_rate discount_rate pay_now
      payment_frequency \<noteq> Inl ValueError"
    by (auto simp: pv_stock_constant_growth_def Let_def py_truediv_def)
qed

theorem frequency_validation_witness:
  "''monthly'' \<notin> {''annual'', ''semi-annual''}
   \<and> ''monthly'' \<notin> {''annual'', ''semi-annual'', ''quarter''}
   \<and> bond_value 1000 (5 / 100) 2 (- 1) ''monthly'' = Inl ValueError
   \<and> calculate_realized_yield secant_solver 1000 (5 / 100) (- 1) 2 1 (5 / 100) ''monthly''
       = Inl ValueError
   \<and> pv_stock_constant_growth (22 / 100) (16 / 100) (16 / 100) False ''monthly'' = Inl ValueError
   \<and> ''annual'' \<in> {''annual'', ''semi-annual''}
   \<and> ''quarter'' \<in> {''annual'', ''semi-annual'', ''quarter''}
   \<and> no_value_error_of_its_own secant_solver
   \<and> bond_value 1000 (5 / 100) 2 (- 1) ''annual'' \<noteq> Inl ValueError
   \<and> calculate_realized_yield secant_solver 1000 (5 / 100) (- 1) 2 1 (5 / 100) ''annual''
       \<noteq> Inl ValueError
   \<and> pv_stock_constant_growth (22 / 100) (16 / 100) (16 / 100) False ''quarter'' \<noteq> Inl ValueError"
proof -
  have solver: "no_value_error_of_its_own secant_solver"
    unfolding no_value_error_of_its_own_def using secant_solver_error by blast
  show ?thesis
    using solver
      frequency_validation [where frequency = "''monthly''" and face_value = 1000
        and coupon_rate = "5 / 100" and years_to_maturity = 2 and ytm = "- 1"
        and newton = secant_solver and current_ytm = "- 1" and holding_period = 1
        and future_ytm = "5 / 100" and payment_frequency = "''monthly''"
        and dividend = "22 / 100" and growth_rate = "16 / 100"
        and discount_rate = "16 / 100" and pay_now = False]
      frequency_validation [where frequency = "''annual''" and face_value = 1000
        and coupon_rate = "5 / 100" and years_to_maturity = 2 and ytm = "- 1"
        and newton = secant_solver and current_ytm = "- 1" and holding_period = 1
        and future_ytm = "5 / 100" and payment_frequency = "''quarter''"
        and dividend = "22 / 100" and growth_rate = "16 / 100"
        and discount_rate = "16 / 100" and pay_now = False]
    by simp
qed

subsection \<open>Evaluating the secant iteration\<close>






subsection \<open>An unrecognised frequency in \<^verbatim>\<open>calculate_ytm\<close>\<close>

text \<open>
  C10: with a frequency outside annual and semi-annual, \<^verbatim>\<open>calculate_ytm\<close> fails with
  \<^verbatim>\<open>ValueError\<close> too, for every root-finder that evaluates the residual at the guess
  first and lets its exception through. The error comes from \<^verbatim>\<open>bond_value\<close>: the
  residual raises it at every yield. \<^verbatim>\<open>calculate_ytm\<close> itself does not check the
  frequency: with a root-finder that never evaluates the residual it returns a value.
\<close>

theorem calculate_ytm_invalid_frequency:
  assumes "frequency \<notin> {''annual'', ''semi-annual''}"
    and "evaluates_guess_first newton"
  shows "calculate_ytm newton bond_price face_value coupon_rate years_to_maturity frequency
           guess = Inl ValueError
         \<and> (\<forall>y. ytm_func bond_price face_value coupon_rate years_to_maturity frequency y
                = Inl ValueError)
         \<and> calculate_ytm (\<lambda>f x. Inr x) bond_price face_value coupon_rate years_to_maturity
             frequency guess = Inr guess"
proof -
  have raised: "ytm_func bond_price face_value coupon_rate years_to_maturity frequency y
      = Inl ValueError" for y
    using assms(1) by (simp add: ytm_func_def bond_value_def)
  then have "calculate_ytm newton bond_price face_value coupon_rate years_to_maturity
      frequency guess = Inl ValueError"
    using assms(2) unfolding calculate_ytm_def evaluates_guess_first_def by blast
  with raised show ?thesis
    by (simp add: calculate_ytm_def)
qed

theorem calculate_ytm_invalid_frequency_witness:
  "''monthly'' \<notin> {''annual'', ''semi-annual''}
   \<and> evaluates_guess_first secant_solver
   \<and> calculate_ytm secant_solver (77485 / 100) 1000 (12 / 100) 15 ''monthly'' (5 / 100)
       = Inl ValueError
   \<and> ytm_func (77485 / 100) 1000 (12 / 100) 15 ''monthly'' (5 / 100) = Inl ValueError
   \<and> calculate_ytm (\<lambda>f x. Inr x) (77485 / 100) 1000 (12 / 100) 15 ''monthly'' (5 / 100)
       = Inr (5 / 100)"
proof -
  have m: "''monthly'' \<notin> {''annual'', ''semi-annual''}" by simp
  have solver: "evaluates_guess_first secant_solver"
    unfolding evaluates_guess_first_def using secant_solver_first_evaluation by blast
  show ?thesis
    using m solver
      calculate_ytm_invalid_frequency [OF m solver,
        where bond_price = "77485 / 100" and face_value = 1000 and coupon_rate = "12 / 100"
        and years_to_maturity = 15 and guess = "5 / 100"]
    by simp
qed

subsection \<open>The optimal two-asset weights\<close>

lemma float_exponent_bounds:
  "0 < x \<Longrightarrow> 2 powi float_exponent x \<le> x \<and> x < 2 powi (float_exponent x + 1)"
proof (induction x rule: float_exponent.induct)
  case (1 x)
  show ?case
  proof (cases "x < 1")
    case True
    with "1.prems" have ih: "2 powi float_exponent (2 * x) \<le> 2 * x"
      "2 * x < 2 powi (float_exponent (2 * x) + 1)"
      using "1.IH"(1) by simp_all
    have e: "float_exponent x = float_exponent (2 * x) - 1"
      using True "1.prems" by (subst float_exponent.simps) simp
    show ?thesis
      using ih unfolding e by (simp add: power_int_diff power_int_add)
  next
    case False
    show ?thesis
    proof (cases "2 \<le> x")
      case True
      with False "1.prems" have ih: "2 powi float_exponent (x / 2) \<le> x / 2"
        "x / 2 < 2 powi (float_exponent (x / 2) + 1)"
        using "1.IH"(2) by simp_all
      have e: "float_exponent x = float_exponent (x / 2) + 1"
        using True False "1.prems" by (subst float_exponent.simps) simp
      show ?thesis
        using ih unfolding e by (simp add: power_int_diff power_int_add)
    next
      case F2: False
      have e: "float_exponent x = 0"
        using False F2 "1.prems" by (subst float_exponent.simps) simp
      show ?thesis
        using False F2 unfolding e by simp
    qed
  qed
qed


lemma round_half_even_error: "\<bar>real_of_int (round_half_even x) - x\<bar> \<le> 1 / 2"
  unfolding round_half_even_def Let_def by (auto simp: abs_if) linarith+

lemma binary64_error: "\<bar>binary64 x - x\<bar> \<le> \<bar>x\<bar> / 2 ^ 53"
proof (cases "x = 0")
  case True
  then show ?thesis by (simp add: binary64_def)
next
  case False
  define e where "e = float_exponent \<bar>x\<bar>"
  define ulp :: real where "ulp = 2 powi (e - 52)"
  define m where "m = real_of_int (round_half_even (\<bar>x\<bar> / ulp))"
  have ulp: "0 < ulp" by (simp add: ulp_def)
  have low: "2 powi e \<le> \<bar>x\<bar>"
    using float_exponent_bounds [of "\<bar>x\<bar>"] False by (simp add: e_def)
  have b: "binary64 x = sgn x * m * ulp"
    using False by (simp add: binary64_def Let_def e_def ulp_def m_def)
  have split: "m * ulp - \<bar>x\<bar> = (m - \<bar>x\<bar> / ulp) * ulp"
    using ulp by (simp add: left_diff_distrib)
  have "\<bar>binary64 x - x\<bar> = \<bar>sgn x * (m * ulp - \<bar>x\<bar>)\<bar>"
    unfolding b by (simp add: algebra_simps sgn_real_def abs_if)
  also have "\<dots> = \<bar>m * ulp - \<bar>x\<bar>\<bar>"
    using False by (simp add: abs_mult)
  also have "\<dots> = \<bar>m - \<bar>x\<bar> / ulp\<bar> * ulp"
    unfolding split using ulp by (simp add: abs_mult)
  also have "\<dots> \<le> 1 / 2 * ulp"
    using round_half_even_error [of "\<bar>x\<bar> / ulp"] ulp
    by (intro mult_right_mono) (simp_all add: m_def)
  also have "\<dots> = 2 powi e / 2 ^ 53"
    by (simp add: ulp_def power_int_diff)
  also have "\<dots> \<le> \<bar>x\<bar> / 2 ^ 53"
    using low by (simp add: divide_right_mono)
  finally show ?thesis .
qed


lemma binary64_eval:
  "binary64 (1 / 4) = 1 / 4" "binary64 1 = 1" "binary64 (1 / 2) = 1 / 2" "binary64 (5 / 4) = 5 / 4"
  "binary64 (1 / 16) = 1 / 16" "binary64 (1 / 8) = 1 / 8" "binary64 (1 / 32) = 1 / 32"
  "binary64 (1 / 64) = 1 / 64" "binary64 (5 / 64) = 5 / 64" "binary64 (5 / 128) = 5 / 128"
  "binary64 (- (1 / 64)) = - (1 / 64)"
  "binary64 (- (2 / 5)) = - (3602879701896397 / 9007199254740992)"
  "binary64 (12610078956637389 / 9007199254740992) = 3152519739159347 / 2251799813685248"
  "binary64 (9007199254740991 / 9007199254740992) = 9007199254740991 / 9007199254740992"
  by (simp_all add: binary64_def float_exponent.simps round_half_even_def power_int_def Let_def
      power_divide)

text \<open>
  C8 as stated fails for the floats that the function returns: \<open>w2\<close> is \<open>1 - w1\<close>
  rounded, and the pair need not sum to one. At \<open>r1 = 0.25\<close>, \<open>r2 = 1\<close>,
  \<open>sigma1 = sigma2 = 0.25\<close>, \<open>rho = 0.5\<close>, \<open>rf = 0\<close> every operation before the
  division is exact, \<open>w1\<close> is the double nearest to \<open>-0.4\<close>, \<open>1 - w1\<close> lies half-way
  between two doubles and goes to the even one, and \<open>w1 + w2 = 1 - 2^-53\<close>, which is
  itself a double: the sum is not one, whether it is taken exactly or as a float.
\<close>

theorem optimal_weight_allocation_sum_counterexample:
  "optimal_weight_allocation binary64 (1 / 4) 1 (1 / 4) (1 / 4) (1 / 2) 0 =
     Inr (- 3602879701896397 / 9007199254740992, 3152519739159347 / 2251799813685248)
   \<and> - 3602879701896397 / 9007199254740992 + 3152519739159347 / 2251799813685248
       = (1 - 1 / 2 ^ 53 :: real)
   \<and> binary64 (- 3602879701896397 / 9007199254740992 + 3152519739159347 / 2251799813685248)
       = 1 - 1 / 2 ^ 53
   \<and> (1 - 1 / 2 ^ 53 :: real) \<noteq> 1"
  by (simp add: optimal_weight_allocation_def py_truediv_def Let_def power2_eq_square
      binary64_eval)

text \<open>
  C8, amended: in exact arithmetic, when the denominator is not zero,
  \<^verbatim>\<open>optimal_weight_allocation\<close> returns the pair \<open>(w1, w2)\<close> with
  \<open>w1 = (sigma2^2 * rp1 - covariance * rp2) /
  (sigma1^2 * rp2 + sigma2^2 * rp1 - covariance * (rp1 + rp2))\<close>, \<open>rp1 = r1 - rf\<close>,
  \<open>rp2 = r2 - rf\<close>, \<open>covariance = sigma1 * sigma2 * rho\<close> and \<open>w2 = 1 - w1\<close>, so that
  \<open>w1 + w2 = 1\<close>; no bounds are enforced (at the input of the witness \<open>w1\<close> exceeds one
  and \<open>w2\<close> is negative). In double precision the second weight returned is \<open>1 - w1\<close>
  rounded, and the sum of the pair differs from one by at most \<open>\<bar>1 - w1\<bar> / 2^53\<close>.
\<close>

theorem optimal_weight_allocation_formula:
  "(sigma1 ^ 2 * (r2 - rf) + sigma2 ^ 2 * (r1 - rf)
        - sigma1 * sigma2 * rho * ((r1 - rf) + (r2 - rf)) \<noteq> 0 \<longrightarrow>
      (let rp1 = r1 - rf;
           rp2 = r2 - rf;
           covariance = sigma1 * sigma2 * rho;
           w1 = (sigma2 ^ 2 * rp1 - covariance * rp2)
                / (sigma1 ^ 2 * rp2 + sigma2 ^ 2 * rp1 - covariance * (rp1 + rp2));
           w2 = 1 - w1
       in optimal_weight_allocation id r1 r2 sigma1 sigma2 rho rf = Inr (w1, w2)
          \<and> w1 + w2 = 1))
   \<and> (\<forall>w1 w2. optimal_weight_allocation binary64 r1 r2 sigma1 sigma2 rho rf = Inr (w1, w2) \<longrightarrow>
          w2 = binary64 (1 - w1) \<and> \<bar>w1 + w2 - 1\<bar> \<le> \<bar>1 - w1\<bar> / 2 ^ 53)"
proof (intro conjI impI allI)
  assume "sigma1 ^ 2 * (r2 - rf) + sigma2 ^ 2 * (r1 - rf)
        - sigma1 * sigma2 * rho * ((r1 - rf) + (r2 - rf)) \<noteq> 0"
  then show "let rp1 = r1 - rf;
           rp2 = r2 - rf;
           covariance = sigma1 * sigma2 * rho;
           w1 = (sigma2 ^ 2 * rp1 - covariance * rp2)
                / (sigma1 ^ 2 * rp2 + sigma2 ^ 2 * rp1 - covariance * (rp1 + rp2));
           w2 = 1 - w1
       in optimal_weight_allocation id r1 r2 sigma1 sigma2 rho rf = Inr (w1, w2)
          \<and> w1 + w2 = 1"
    by (simp add: optimal_weight_allocation_def py_truediv_def Let_def)
next
  fix w1 w2
  assume r: "optimal_weight_allocation binary64 r1 r2 sigma1 sigma2 rho rf = Inr (w1, w2)"
  then show w2: "w2 = binary64 (1 - w1)"
    by (auto simp: optimal_weight_allocation_def Let_def split: sum.splits)
  have "\<bar>w1 + w2 - 1\<bar> = \<bar>binary64 (1 - w1) - (1 - w1)\<bar>"
    unfolding w2 by simp
  also have "\<dots> \<le> \<bar>1 - w1\<bar> / 2 ^ 53"
    by (rule binary64_error)
  finally show "\<bar>w1 + w2 - 1\<bar> \<le> \<bar>1 - w1\<bar> / 2 ^ 53" .
qed

theorem optimal_weight_allocation_formula_witness:
  "(1::real) ^ 2 * (1 / 100 - 2 / 100) + 1 ^ 2 * (1 / 10 - 2 / 100)
       - 1 * 1 * 0 * ((1 / 10 - 2 / 100) + (1 / 100 - 2 / 100)) \<noteq> 0
   \<and> optimal_weight_allocation id (1 / 10) (1 / 100) 1 1 0 (2 / 100) = Inr (8 / 7, - 1 / 7)
   \<and> (8 / 7 :: real) > 1 \<and> (- 1 / 7 :: real) < 0 \<and> (8 / 7 + - 1 / 7 :: real) = 1
   \<and> optimal_weight_allocation binary64 (1 / 4) 1 (1 / 4) (1 / 4) (1 / 2) 0 =
        Inr (- 3602879701896397 / 9007199254740992, 3152519739159347 / 2251799813685248)
   \<and> 3152519739159347 / 2251799813685248
        = binary64 (1 - - 3602879701896397 / 9007199254740992)
   \<and> \<bar>- 3602879701896397 / 9007199254740992 + 3152519739159347 / 2251799813685248 - 1\<bar>
        \<le> \<bar>1 - - 3602879701896397 / 9007199254740992 :: real\<bar> / 2 ^ 53"
proof -
  have ex: "optimal_weight_allocation binary64 (1 / 4) 1 (1 / 4) (1 / 4) (1 / 2) 0 =
        Inr (- 3602879701896397 / 9007199254740992, 3152519739159347 / 2251799813685248)"
    by (simp add: optimal_weight_allocation_def py_truediv_def Let_def power2_eq_square
        binary64_eval)
  have exact: "(1::real) ^ 2 * (1 / 100 - 2 / 100) + 1 ^ 2 * (1 / 10 - 2 / 100)
       - 1 * 1 * 0 * ((1 / 10 - 2 / 100) + (1 / 100 - 2 / 100)) \<noteq> 0
     \<and> optimal_weight_allocation id (1 / 10) (1 / 100) 1 1 0 (2 / 100) = Inr (8 / 7, - 1 / 7)
     \<and> (8 / 7 :: real) > 1 \<and> (- 1 / 7 :: real) < 0 \<and> (8 / 7 + - 1 / 7 :: real) = 1"
    using optimal_weight_allocation_formula [of 1 "1 / 100" "2 / 100" 1 "1 / 10" 0]
    by (simp add: Let_def)
  have rounded: "3152519739159347 / 2251799813685248
        = binary64 (1 - - 3602879701896397 / 9007199254740992)
     \<and> \<bar>- 3602879701896397 / 9007199254740992 + 3152519739159347 / 2251799813685248 - 1\<bar>
        \<le> \<bar>1 - - 3602879701896397 / 9007199254740992 :: real\<bar> / 2 ^ 53"
    using optimal_weight_allocation_formula [of "1 / 4" 1 0 "1 / 4" "1 / 4" "1 / 2"] ex
    by blast
  show ?thesis
    using exact ex rounded by blast
qed

subsection \<open>The round trip from a yield to a price and back\<close>










subsection \<open>What the root-finder returns\<close>






end
